theory Spec2Isabelle
  imports Complex_Main
begin

section \<open>gprMax: building and running one model (model_build_run.py)\<close>

text \<open>
  The module drives one FDTD model run: \<open>run_model\<close> builds (or reuses) the grid \<open>G\<close>,
  checks that the model fits into memory, repositions stepped sources and receivers, and
  hands over to \<open>solve_cpu\<close> or \<open>solve_gpu\<close>, which run the time-stepping loop.  The
  numerical kernels it calls live in compiled extension modules; here every call into
  them is recorded, in order, in a trace of events carried by the grid.
\<close>

subsection \<open>Data model\<close>

text \<open>Every fatal condition of the module is a \<open>GeneralError\<close> with a message; reading an
  attribute of \<open>None\<close> is Python's \<open>AttributeError\<close>.\<close>

datatype message =
    MemoryExceedsHost
  | MemoryExceedsGPU
  | NonPhysicalWavePropagation
  | SourceOutsideDomain
  | ReceiverOutsideDomain
  | TooManyMaterialsForConstantMemory

datatype error = GeneralError message | AttributeError

datatype srckind = VoltageSource | TransmissionLine | HertzianDipole | MagneticDipole

datatype component = CEx | CEy | CEz | CHx | CHy | CHz

datatype kernel_module = KernelsFields | KernelsPml | KernelStoreOutputs | KernelsSources

datatype coeff_table = CoeffsE | CoeffsH

datatype event =
    \<comment> \<open>calls made by \<open>run_model\<close>\<close>
    NewGrid
  | InitialiseDispersiveArrays
  | ProcessMaterials
  | DispersionAnalysis
  | InitialiseFieldArrays
  | PmlInitialiseFieldArrays nat
  | WriteGeometryView nat
  | WriteGeometryObject nat
  | PrepareSnapshot nat
  | WriteHdf5Outputfile
    \<comment> \<open>calls made by \<open>solve_cpu\<close>; the last argument of a source update is the iteration\<close>
  | StoreOutputs nat "component list"
  | WriteSnapshot nat nat
  | UpdateMagnetic
  | PmlUpdateMagnetic nat
  | SourceUpdateMagnetic srckind nat nat
  | UpdateElectric
  | UpdateElectricDispersive1poleA
  | UpdateElectricDispersiveMultipoleA int
  | PmlUpdateElectric nat
  | SourceUpdateElectric srckind nat nat
  | UpdateElectricDispersive1poleB
  | UpdateElectricDispersiveMultipoleB int
    \<comment> \<open>calls made by \<open>solve_gpu\<close>: set-up\<close>
  | DrvInit
  | MakeContext nat
  | CompileModule kernel_module
  | MemcpyHtoD kernel_module coeff_table
  | GpuInitialiseDispersiveArrays
  | GpuSetBlocksPerGrid
  | GpuInitialiseArrays
  | PmlGpuSetup nat
  | GpuInitialiseRxArrays
  | GpuInitialiseSrcArrays srckind
    \<comment> \<open>calls made by \<open>solve_gpu\<close>: kernel launches; a count, then the iteration\<close>
  | LaunchStoreOutputs nat nat "component list"
  | LaunchUpdateH
  | PmlGpuUpdateMagnetic nat
  | LaunchUpdateMagneticDipole nat nat
  | LaunchUpdateE
  | LaunchUpdateEDispersiveA int
  | PmlGpuUpdateElectric nat
  | LaunchUpdateVoltageSource nat nat
  | LaunchUpdateHertzianDipole nat nat
  | LaunchUpdateEDispersiveB int
  | GpuGetRxArray
  | CtxPop

text \<open>Sources and receivers hold their current cell coordinates and the coordinates they
  were given in the input file.\<close>

record coords =
  xcoord :: int
  ycoord :: int
  zcoord :: int
  xcoordorigin :: int
  ycoordorigin :: int
  zcoordorigin :: int

type_synonym source = coords
type_synonym receiver = coords

text \<open>A PML slab owns auxiliary field arrays and the coefficients of its loss profile.\<close>

record pml =
  pml_fields :: "real list"
  pml_coeffs :: "real list"

record gpu_device =
  deviceID :: nat
  totalmem :: int
  constmem :: int

record snapshot =
  snap_time :: int

type_synonym vec3 = "int \<times> int \<times> int"

fun idx0 :: "vec3 \<Rightarrow> int" where "idx0 (a, b, c) = a"
fun idx1 :: "vec3 \<Rightarrow> int" where "idx1 (a, b, c) = b"
fun idx2 :: "vec3 \<Rightarrow> int" where "idx2 (a, b, c) = c"

record grid =
  nx :: int
  ny :: int
  nz :: int
  iterations :: int
  srcsteps :: vec3
  rxsteps :: vec3
  hertziandipoles :: "source list"
  magneticdipoles :: "source list"
  voltagesources :: "source list"
  transmissionlines :: "source list"
  rxs :: "receiver list"
  pmls :: "pml list"
  snapshots :: "snapshot list"
  geometryviews :: nat
  geometryobjectswrite :: nat
  gpu :: "gpu_device option"
  hostram :: int
  mingridsampling :: int
  Ex_field :: "real list"  \<comment> \<open>\<open>G.Ex\<close>; the name \<open>Ex\<close> is the quantifier of HOL\<close>
  Ey :: "real list"
  Ez :: "real list"
  Hx :: "real list"
  Hy :: "real list"
  Hz :: "real list"
  ID :: "nat list"
  materials :: "string list"
  updatecoeffsE :: "real list"
  updatecoeffsH :: "real list"
  updatecoeffsdispersive :: "complex list option"
  Tx :: "complex list option"
  Ty :: "complex list option"
  Tz :: "complex list option"
  trace :: "event list"

text \<open>\<open>calls evs G\<close> is \<open>G\<close> after the calls \<open>evs\<close>, as far as the trace goes.\<close>

definition calls :: "event list \<Rightarrow> grid \<Rightarrow> grid" where
  "calls evs G = G\<lparr>trace := trace G @ evs\<rparr>"

subsection \<open>Stepping sources and receivers between runs (\<open>run_model\<close>, lines 277-293)\<close>

text \<open>The test made on the first run, for one source or receiver and one step vector.\<close>

definition outside_domain :: "vec3 \<Rightarrow> int \<Rightarrow> grid \<Rightarrow> coords \<Rightarrow> bool" where
  "outside_domain steps modelend G s \<longleftrightarrow>
     xcoord s + idx0 steps * modelend < 0 \<or> xcoord s + idx0 steps * modelend > nx G \<or>
     ycoord s + idx1 steps * modelend < 0 \<or> ycoord s + idx1 steps * modelend > ny G \<or>
     zcoord s + idx2 steps * modelend < 0 \<or> zcoord s + idx2 steps * modelend > nz G"

definition reposition :: "int \<Rightarrow> vec3 \<Rightarrow> coords \<Rightarrow> coords" where
  "reposition currentmodelrun steps s =
     s\<lparr>xcoord := xcoordorigin s + (currentmodelrun - 1) * idx0 steps,
       ycoord := ycoordorigin s + (currentmodelrun - 1) * idx1 steps,
       zcoord := zcoordorigin s + (currentmodelrun - 1) * idx2 steps\<rparr>"

text \<open>The body of either \<open>for\<close> loop.  The objects are changed in place, so when the error
  is raised the objects before the offending one have been repositioned already: the
  result is the error, if any, with the list as the loop leaves it.\<close>

fun step_all :: "message \<Rightarrow> vec3 \<Rightarrow> int \<Rightarrow> int \<Rightarrow> grid \<Rightarrow> coords list \<Rightarrow> error option \<times> coords list" where
  "step_all msg steps currentmodelrun modelend G [] = (None, [])"
| "step_all msg steps currentmodelrun modelend G (s # ss) =
     (if currentmodelrun = 1 \<and> outside_domain steps modelend G s
      then (Some (GeneralError msg), s # ss)
      else (case step_all msg steps currentmodelrun modelend G ss of
              (e, ss') \<Rightarrow> (e, reposition currentmodelrun steps s # ss')))"

definition nonzero :: "vec3 \<Rightarrow> bool" where
  "nonzero steps \<longleftrightarrow> idx0 steps \<noteq> 0 \<or> idx1 steps \<noteq> 0 \<or> idx2 steps \<noteq> 0"

text \<open>The first loop runs over \<open>itertools.chain(G.hertziandipoles, G.magneticdipoles)\<close>.\<close>

definition adjust_sources :: "int \<Rightarrow> int \<Rightarrow> grid \<Rightarrow> (error \<times> grid) + grid" where
  "adjust_sources currentmodelrun modelend G =
     (if nonzero (srcsteps G) then
        (case step_all SourceOutsideDomain (srcsteps G) currentmodelrun modelend G (hertziandipoles G) of
           (Some e, hs) \<Rightarrow> Inl (e, G\<lparr>hertziandipoles := hs\<rparr>)
         | (None, hs) \<Rightarrow>
            (case step_all SourceOutsideDomain (srcsteps G) currentmodelrun modelend G (magneticdipoles G) of
               (Some e, ms) \<Rightarrow> Inl (e, G\<lparr>hertziandipoles := hs, magneticdipoles := ms\<rparr>)
             | (None, ms) \<Rightarrow> Inr (G\<lparr>hertziandipoles := hs, magneticdipoles := ms\<rparr>)))
      else Inr G)"

definition adjust_receivers :: "int \<Rightarrow> int \<Rightarrow> grid \<Rightarrow> (error \<times> grid) + grid" where
  "adjust_receivers currentmodelrun modelend G =
     (if nonzero (rxsteps G) then
        (case step_all ReceiverOutsideDomain (rxsteps G) currentmodelrun modelend G (rxs G) of
           (Some e, rs) \<Rightarrow> Inl (e, G\<lparr>rxs := rs\<rparr>)
         | (None, rs) \<Rightarrow> Inr (G\<lparr>rxs := rs\<rparr>))
      else Inr G)"

definition adjust_positions :: "int \<Rightarrow> int \<Rightarrow> grid \<Rightarrow> (error \<times> grid) + grid" where
  "adjust_positions currentmodelrun modelend G =
     (case adjust_sources currentmodelrun modelend G of
        Inl e \<Rightarrow> Inl e
      | Inr G' \<Rightarrow> adjust_receivers currentmodelrun modelend G')"

subsection \<open>Building the model, or reusing it (\<open>run_model\<close>, lines 100-275)\<close>

definition zeros :: "nat \<Rightarrow> 'a::zero list" where
  "zeros n = replicate n 0"

definition ncells :: "grid \<Rightarrow> nat" where
  "ncells G = nat ((nx G + 1) * (ny G + 1) * (nz G + 1))"

text \<open>Modelled from the spec: \<open>FDTDGrid.initialise_field_arrays\<close> (grid.py is not part of the
  sources at hand).  The grid ``owns six 3D arrays of real-valued field samples'' over
  \<open>(nx, ny, nz)\<close> ``plus one ghost layer per axis''; the call site says ``Clear arrays for
  field components''.\<close>

definition initialise_field_arrays :: "grid \<Rightarrow> grid" where
  "initialise_field_arrays G =
     calls [InitialiseFieldArrays]
       (G\<lparr>Ex_field := zeros (ncells G), Ey := zeros (ncells G), Ez := zeros (ncells G),
          Hx := zeros (ncells G), Hy := zeros (ncells G), Hz := zeros (ncells G)\<rparr>)"

text \<open>Modelled from the spec: \<open>PML.initialise_field_arrays\<close> (pml.py is not part of the
  sources at hand): ``only the auxiliary field arrays are rezeroed; coefficients are not
  recomputed''; the call site says ``Clear arrays for fields in PML''.\<close>

definition pml_initialise_field_arrays :: "pml \<Rightarrow> pml" where
  "pml_initialise_field_arrays p = p\<lparr>pml_fields := zeros (length (pml_fields p))\<rparr>"

text \<open>Modelled from the spec: \<open>FDTDGrid.initialise_dispersive_arrays\<close> (grid.py): the
  auxiliary dispersive state \<open>Tx, Ty, Tz\<close> holds ``per-field-component, per-pole
  accumulator arrays'', ``allocated once maxpoles > 0 is known'' and zeroed; the dispersive
  table holds ``per-pole update coefficients'' for every material.\<close>

definition initialise_dispersive_arrays :: "int \<Rightarrow> grid \<Rightarrow> grid" where
  "initialise_dispersive_arrays maxpoles G =
     calls [InitialiseDispersiveArrays]
       (G\<lparr>updatecoeffsdispersive := Some (zeros (length (materials G) * 3 * nat maxpoles)),
          Tx := Some (zeros (nat maxpoles * ncells G)),
          Ty := Some (zeros (nat maxpoles * ncells G)),
          Tz := Some (zeros (nat maxpoles * ncells G))\<rparr>)"

text \<open>What the module takes from its collaborators: the grid as reading the input file
  and building the geometry leave it (lines 103-224), the memory estimate, the update
  coefficients that \<open>process_materials\<close> stores, the outcome of the dispersion analysis,
  and the size in bytes of one coefficient (\<open>floattype\<close>).\<close>

record dispersion_results =
  disp_error :: bool
  disp_N :: int

record externals =
  read_and_build :: grid
  memory_usage :: "grid \<Rightarrow> int"
  process_materials :: "grid \<Rightarrow> real list \<times> real list \<times> complex list option"
  dispersion_analysis :: "grid \<Rightarrow> dispersion_results"
  itemsize :: nat

text \<open>Lines 228-242: the memory check, then the allocation.\<close>

definition admit_dispersive :: "int \<Rightarrow> (grid \<Rightarrow> int) \<Rightarrow> grid \<Rightarrow> (error \<times> grid) + grid" where
  "admit_dispersive maxpoles mem_usage G =
     (if maxpoles \<noteq> 0 then
        (let memestimate = mem_usage G in
         if memestimate > hostram G then Inl (GeneralError MemoryExceedsHost, G)
         else (case gpu G of
                 Some d \<Rightarrow>
                   if memestimate > totalmem d then Inl (GeneralError MemoryExceedsGPU, G)
                   else Inr (initialise_dispersive_arrays maxpoles G)
               | None \<Rightarrow> Inr (initialise_dispersive_arrays maxpoles G)))
      else Inr G)"

text \<open>Lines 244-263: the coefficients are computed; too coarse a grid is fatal.\<close>

definition finish_build :: "externals \<Rightarrow> grid \<Rightarrow> (error \<times> grid) + grid" where
  "finish_build ext G =
     (case process_materials ext G of
        (cE, cH, cD) \<Rightarrow>
          (let G1 = calls [ProcessMaterials]
                      (G\<lparr>updatecoeffsE := cE, updatecoeffsH := cH, updatecoeffsdispersive := cD\<rparr>);
               results = dispersion_analysis ext G1;
               G2 = calls [DispersionAnalysis] G1
           in if \<not> disp_error results \<and> disp_N results < mingridsampling G2
              then Inl (GeneralError NonPhysicalWavePropagation, G2)
              else Inr G2))"

text \<open>Lines 103-224: a new \<open>FDTDGrid\<close>, filled in by the input file.\<close>

definition new_grid :: "externals \<Rightarrow> grid" where
  "new_grid ext = (read_and_build ext)\<lparr>trace := [NewGrid]\<rparr>"

definition build_model :: "int \<Rightarrow> externals \<Rightarrow> (error \<times> grid) + grid" where
  "build_model maxpoles ext =
     (case admit_dispersive maxpoles (memory_usage ext) (new_grid ext) of
        Inl e \<Rightarrow> Inl e
      | Inr G \<Rightarrow> finish_build ext G)"

text \<open>Lines 265-275: the grid of the previous run is still there.\<close>

definition reuse_geometry :: "grid \<Rightarrow> grid" where
  "reuse_geometry G =
     (let G1 = initialise_field_arrays G
      in calls (map PmlInitialiseFieldArrays [0..<length (pmls G1)])
           (G1\<lparr>pmls := map pml_initialise_field_arrays (pmls G1)\<rparr>))"

text \<open>\<open>G\<close> is a module global: \<open>None\<close> stands for \<open>'G' not in globals()\<close>.\<close>

definition build_or_reuse :: "int \<Rightarrow> externals \<Rightarrow> grid option \<Rightarrow> (error \<times> grid) + grid" where
  "build_or_reuse maxpoles ext Gglobal =
     (case Gglobal of
        None \<Rightarrow> build_model maxpoles ext
      | Some G \<Rightarrow> Inr (reuse_geometry G))"

subsection \<open>The time-stepping loop on the CPU (\<open>solve_cpu\<close>)\<close>

definition all_components :: "component list" where
  "all_components = [CEx, CEy, CEz, CHx, CHy, CHz]"

text \<open>One call per object of a list; objects are named by their place in the list.\<close>

definition for_each :: "(nat \<Rightarrow> event) \<Rightarrow> 'a list \<Rightarrow> event list" where
  "for_each call xs = map call [0..<length xs]"

definition snapshot_events :: "grid \<Rightarrow> nat \<Rightarrow> event list" where
  "snapshot_events G iteration =
     map (\<lambda>i. WriteSnapshot i iteration)
       (filter (\<lambda>i. snap_time (snapshots G ! i) = int iteration + 1) [0..<length (snapshots G)])"

definition cpu_iteration :: "int \<Rightarrow> grid \<Rightarrow> nat \<Rightarrow> event list" where
  "cpu_iteration maxpoles G iteration =
     [StoreOutputs iteration all_components]
     @ snapshot_events G iteration
     @ [UpdateMagnetic]
     @ for_each PmlUpdateMagnetic (pmls G)
     @ for_each (\<lambda>i. SourceUpdateMagnetic TransmissionLine i iteration) (transmissionlines G)
     @ for_each (\<lambda>i. SourceUpdateMagnetic MagneticDipole i iteration) (magneticdipoles G)
     @ (if maxpoles = 0 then [UpdateElectric]
        else if maxpoles = 1 then [UpdateElectricDispersive1poleA]
        else if maxpoles > 1 then [UpdateElectricDispersiveMultipoleA maxpoles]
        else [])
     @ for_each PmlUpdateElectric (pmls G)
     @ for_each (\<lambda>i. SourceUpdateElectric VoltageSource i iteration) (voltagesources G)
     @ for_each (\<lambda>i. SourceUpdateElectric TransmissionLine i iteration) (transmissionlines G)
     @ for_each (\<lambda>i. SourceUpdateElectric HertzianDipole i iteration) (hertziandipoles G)
     @ (if maxpoles = 1 then [UpdateElectricDispersive1poleB]
        else if maxpoles > 1 then [UpdateElectricDispersiveMultipoleB maxpoles]
        else [])"

text \<open>\<open>range(G.iterations)\<close> is empty for a count that is not positive.\<close>

definition cpu_loop :: "int \<Rightarrow> grid \<Rightarrow> event list" where
  "cpu_loop maxpoles G = concat (map (cpu_iteration maxpoles G) [0..<nat (iterations G)])"

definition solve_cpu :: "int \<Rightarrow> grid \<Rightarrow> grid" where
  "solve_cpu maxpoles G = calls (cpu_loop maxpoles G) G"

subsection \<open>The time-stepping loop on the GPU (\<open>solve_gpu\<close>)\<close>

definition nbytes :: "nat \<Rightarrow> 'a list \<Rightarrow> int" where
  "nbytes isize a = int (length a * isize)"

text \<open>Lines 431-445: up to the test of the constant memory.\<close>

definition gpu_prepare_fields :: "gpu_device \<Rightarrow> event list" where
  "gpu_prepare_fields d = [DrvInit, MakeContext (deviceID d), CompileModule KernelsFields]"

text \<open>Lines 453-505: the rest of the set-up.\<close>

definition gpu_setup :: "int \<Rightarrow> grid \<Rightarrow> event list" where
  "gpu_setup maxpoles G =
     [MemcpyHtoD KernelsFields CoeffsE, MemcpyHtoD KernelsFields CoeffsH]
     @ (if maxpoles > 0 then [GpuInitialiseDispersiveArrays] else [])
     @ [GpuSetBlocksPerGrid, GpuInitialiseArrays]
     @ (if pmls G \<noteq> []
        then [CompileModule KernelsPml, MemcpyHtoD KernelsPml CoeffsE, MemcpyHtoD KernelsPml CoeffsH]
             @ for_each PmlGpuSetup (pmls G)
        else [])
     @ (if rxs G \<noteq> [] then [GpuInitialiseRxArrays, CompileModule KernelStoreOutputs] else [])
     @ (if voltagesources G @ hertziandipoles G @ magneticdipoles G \<noteq> []
        then [CompileModule KernelsSources,
              MemcpyHtoD KernelsSources CoeffsE, MemcpyHtoD KernelsSources CoeffsH]
             @ (if hertziandipoles G \<noteq> [] then [GpuInitialiseSrcArrays HertzianDipole] else [])
             @ (if magneticdipoles G \<noteq> [] then [GpuInitialiseSrcArrays MagneticDipole] else [])
             @ (if voltagesources G \<noteq> [] then [GpuInitialiseSrcArrays VoltageSource] else [])
        else [])"

definition gpu_iteration :: "int \<Rightarrow> grid \<Rightarrow> nat \<Rightarrow> event list" where
  "gpu_iteration maxpoles G iteration =
     (if rxs G \<noteq> [] then [LaunchStoreOutputs (length (rxs G)) iteration all_components] else [])
     @ [LaunchUpdateH]
     @ for_each PmlGpuUpdateMagnetic (pmls G)
     @ (if magneticdipoles G \<noteq> []
        then [LaunchUpdateMagneticDipole (length (magneticdipoles G)) iteration] else [])
     @ (if maxpoles = 0 then [LaunchUpdateE] else [LaunchUpdateEDispersiveA maxpoles])
     @ for_each PmlGpuUpdateElectric (pmls G)
     @ (if voltagesources G \<noteq> []
        then [LaunchUpdateVoltageSource (length (voltagesources G)) iteration] else [])
     @ (if hertziandipoles G \<noteq> []
        then [LaunchUpdateHertzianDipole (length (hertziandipoles G)) iteration] else [])
     @ (if maxpoles > 0 then [LaunchUpdateEDispersiveB maxpoles] else [])"

definition gpu_loop :: "int \<Rightarrow> grid \<Rightarrow> event list" where
  "gpu_loop maxpoles G = concat (map (gpu_iteration maxpoles G) [0..<nat (iterations G)])"

definition solve_gpu :: "int \<Rightarrow> nat \<Rightarrow> grid \<Rightarrow> (error \<times> grid) + grid" where
  "solve_gpu maxpoles isize G =
     (case gpu G of
        None \<Rightarrow> Inl (AttributeError, calls [DrvInit] G)
      | Some d \<Rightarrow>
          (let G1 = calls (gpu_prepare_fields d) G
           in if nbytes isize (updatecoeffsE G) + nbytes isize (updatecoeffsH G) > constmem d
              then Inl (GeneralError TooManyMaterialsForConstantMemory, G1)
              else Inr (calls (gpu_setup maxpoles G
                             @ gpu_loop maxpoles G
                             @ (if rxs G \<noteq> [] then [GpuGetRxArray] else [])
                             @ [CtxPop]) G1)))"

subsection \<open>The whole run (\<open>run_model\<close>)\<close>

record args =
  geometry_only :: bool
  geometry_fixed :: bool

text \<open>Lines 295-309.\<close>

definition write_geometry :: "grid \<Rightarrow> grid" where
  "write_geometry G =
     calls (map WriteGeometryView [0..<geometryviews G]
          @ map WriteGeometryObject [0..<geometryobjectswrite G]) G"

text \<open>Lines 316-333.\<close>

definition run_simulation :: "int \<Rightarrow> nat \<Rightarrow> grid \<Rightarrow> (error \<times> grid) + grid" where
  "run_simulation maxpoles isize G =
     (let G1 = calls (for_each PrepareSnapshot (snapshots G)) G
      in case (if gpu G1 = None then Inr (solve_cpu maxpoles G1) else solve_gpu maxpoles isize G1) of
           Inl e \<Rightarrow> Inl e
         | Inr G2 \<Rightarrow> Inr (calls [WriteHdf5Outputfile] G2))"

text \<open>The result is the error with the grid as the exception leaves it, or the global
  \<open>G\<close> for the next run (deleted unless the geometry is fixed) with the final grid.\<close>

definition run_model ::
  "args \<Rightarrow> int \<Rightarrow> int \<Rightarrow> int \<Rightarrow> externals \<Rightarrow> grid option \<Rightarrow> (error \<times> grid) + (grid option \<times> grid)" where
  "run_model args currentmodelrun modelend maxpoles ext Gglobal =
     (case build_or_reuse maxpoles ext Gglobal of
        Inl e \<Rightarrow> Inl e
      | Inr G1 \<Rightarrow>
          (case adjust_positions currentmodelrun modelend G1 of
             Inl e \<Rightarrow> Inl e
           | Inr G2 \<Rightarrow>
               (case (if geometry_only args then Inr (write_geometry G2)
                      else run_simulation maxpoles (itemsize ext) (write_geometry G2)) of
                  Inl e \<Rightarrow> Inl e
                | Inr G3 \<Rightarrow> Inr (if geometry_fixed args then Some G3 else None, G3))))"

subsection \<open>Reading results and traces\<close>

definition final_grid :: "(error \<times> grid) + grid \<Rightarrow> grid" where
  "final_grid r = (case r of Inl (e, G) \<Rightarrow> G | Inr G \<Rightarrow> G)"

definition raised :: "(error \<times> grid) + grid \<Rightarrow> error option" where
  "raised r = (case r of Inl (e, G) \<Rightarrow> Some e | Inr G \<Rightarrow> None)"

text \<open>The events that write field values.\<close>

fun is_field_update :: "event \<Rightarrow> bool" where
  "is_field_update UpdateMagnetic = True"
| "is_field_update (PmlUpdateMagnetic i) = True"
| "is_field_update (SourceUpdateMagnetic k i n) = True"
| "is_field_update UpdateElectric = True"
| "is_field_update UpdateElectricDispersive1poleA = True"
| "is_field_update (UpdateElectricDispersiveMultipoleA p) = True"
| "is_field_update (PmlUpdateElectric i) = True"
| "is_field_update (SourceUpdateElectric k i n) = True"
| "is_field_update UpdateElectricDispersive1poleB = True"
| "is_field_update (UpdateElectricDispersiveMultipoleB p) = True"
| "is_field_update LaunchUpdateH = True"
| "is_field_update (PmlGpuUpdateMagnetic i) = True"
| "is_field_update (LaunchUpdateMagneticDipole c n) = True"
| "is_field_update LaunchUpdateE = True"
| "is_field_update (LaunchUpdateEDispersiveA p) = True"
| "is_field_update (PmlGpuUpdateElectric i) = True"
| "is_field_update (LaunchUpdateVoltageSource c n) = True"
| "is_field_update (LaunchUpdateHertzianDipole c n) = True"
| "is_field_update (LaunchUpdateEDispersiveB p) = True"
| "is_field_update e = False"















text \<open>A source or receiver at run \<open>k\<close> of a series stepped by \<open>steps\<close>.\<close>

definition stepped_to :: "int \<Rightarrow> vec3 \<Rightarrow> coords \<Rightarrow> coords \<Rightarrow> bool" where
  "stepped_to k steps s s' \<longleftrightarrow>
     xcoord s' = xcoordorigin s + (k - 1) * idx0 steps \<and>
     ycoord s' = ycoordorigin s + (k - 1) * idx1 steps \<and>
     zcoord s' = zcoordorigin s + (k - 1) * idx2 steps"

text \<open>A source or receiver whose current cell is one of the grid.\<close>

definition inside_grid :: "grid \<Rightarrow> coords \<Rightarrow> bool" where
  "inside_grid G s \<longleftrightarrow>
     0 \<le> xcoord s \<and> xcoord s \<le> nx G \<and> 0 \<le> ycoord s \<and> ycoord s \<le> ny G \<and>
     0 \<le> zcoord s \<and> zcoord s \<le> nz G"


subsection \<open>A small model\<close>

text \<open>A source or receiver as the input file places it.\<close>

definition at_cell :: "int \<Rightarrow> int \<Rightarrow> int \<Rightarrow> coords" where
  "at_cell x y z = \<lparr>xcoord = x, ycoord = y, zcoord = z,
                     xcoordorigin = x, ycoordorigin = y, zcoordorigin = z\<rparr>"

definition example_grid :: grid where
  "example_grid =
     \<lparr>nx = 10, ny = 10, nz = 10, iterations = 2,
      srcsteps = (2, 0, 0), rxsteps = (2, 0, 0),
      hertziandipoles = [at_cell 1 5 5], magneticdipoles = [at_cell 2 5 5],
      voltagesources = [at_cell 9 5 5], transmissionlines = [at_cell 3 5 5],
      rxs = [at_cell 4 5 5], pmls = [\<lparr>pml_fields = [1, 2], pml_coeffs = [3]\<rparr>],
      snapshots = [], geometryviews = 0, geometryobjectswrite = 0,
      gpu = None, hostram = 1000, mingridsampling = 3,
      Ex_field = [1], Ey = [1], Ez = [1], Hx = [1], Hy = [1], Hz = [1],
      ID = [1], materials = [''pec'', ''free_space''],
      updatecoeffsE = [1, 2], updatecoeffsH = [1, 2], updatecoeffsdispersive = None,
      Tx = None, Ty = None, Tz = None, trace = []\<rparr>"


definition example_ext :: externals where
  "example_ext =
     \<lparr>read_and_build = example_grid,
      memory_usage = (\<lambda>G. 2000),
      process_materials = (\<lambda>G. (updatecoeffsE G, updatecoeffsH G, updatecoeffsdispersive G)),
      dispersion_analysis = (\<lambda>G. \<lparr>disp_error = True, disp_N = 0\<rparr>),
      itemsize = 4\<rparr>"

text \<open>Three runs of a dipole that starts at \<open>x = 0\<close> and moves five cells a run, in a grid of
  ten cells.\<close>

definition stepping_grid :: grid where
  "stepping_grid =
     example_grid\<lparr>srcsteps := (5, 0, 0), hertziandipoles := [at_cell 0 5 5],
                   magneticdipoles := []\<rparr>"

section \<open>Stepped sources and receivers\<close>

lemmas eval_defs = adjust_positions_def adjust_sources_def adjust_receivers_def example_grid_def
  stepping_grid_def nonzero_def outside_domain_def reposition_def at_cell_def final_grid_def
  raised_def stepped_to_def

lemma step_all_passes:
  "(k = 1 \<Longrightarrow> \<forall>s\<in>set ss. \<not> outside_domain steps m G s) \<Longrightarrow>
   step_all msg steps k m G ss = (None, map (reposition k steps) ss)"
  by (induction ss) auto


lemma step_all_same_domain:
  "nx G' = nx G \<Longrightarrow> ny G' = ny G \<Longrightarrow> nz G' = nz G \<Longrightarrow>
   step_all msg steps k m G' ss = step_all msg steps k m G ss"
  by (induction ss) (auto simp: outside_domain_def)





lemma third_run_of_example:
  "map xcoord (hertziandipoles (final_grid (adjust_positions 3 3 example_grid))) = [5] \<and>
   map xcoord (magneticdipoles (final_grid (adjust_positions 3 3 example_grid))) = [6] \<and>
   map xcoord (rxs (final_grid (adjust_positions 3 3 example_grid))) = [8]"
  by (simp add: eval_defs)

text \<open>
  C10: the adjustment steps Hertzian dipoles, magnetic dipoles and receivers only.  In
  every run, whether it returns or raises, the voltage sources and the transmission lines
  are as they were; and whether it raises, and what, does not depend on them: replacing
  them by any other lists gives the same outcome.
\<close>

theorem voltage_sources_and_lines_not_stepped:
  "voltagesources (final_grid (adjust_positions k m G)) = voltagesources G \<and>
   transmissionlines (final_grid (adjust_positions k m G)) = transmissionlines G \<and>
   raised (adjust_positions k m (G\<lparr>voltagesources := vs, transmissionlines := ts\<rparr>)) =
     raised (adjust_positions k m G)"
proof -
  let ?G = "G\<lparr>voltagesources := vs, transmissionlines := ts\<rparr>"
  have eq: "step_all msg steps k m ?G ss = step_all msg steps k m G ss" for msg steps ss
    by (rule step_all_same_domain) simp_all
  have eq2: "step_all msg steps k m (G'\<lparr>hertziandipoles := hs, magneticdipoles := ms\<rparr>) ss
               = step_all msg steps k m G' ss" for msg steps ss hs ms G'
    by (rule step_all_same_domain) simp_all
  have 1: "voltagesources (final_grid (adjust_positions k m G)) = voltagesources G"
    by (simp add: adjust_positions_def adjust_sources_def adjust_receivers_def final_grid_def
        split: prod.split option.split)
  have 2: "transmissionlines (final_grid (adjust_positions k m G)) = transmissionlines G"
    by (simp add: adjust_positions_def adjust_sources_def adjust_receivers_def final_grid_def
        split: prod.split option.split)
  have 3: "raised (adjust_positions k m ?G) = raised (adjust_positions k m G)"
    by (simp add: adjust_positions_def adjust_sources_def adjust_receivers_def raised_def eq eq2
        split: prod.split option.split)
  from 1 2 3 show ?thesis by blast
qed

text \<open>
  C2: the test of the first run looks at \<open>coordinate + step * modelend\<close>, while run \<open>k\<close>
  puts a source at \<open>origin + (k - 1) * step\<close>, so that the last run, \<open>modelend\<close>, is one step
  short of the place tested.  In a grid of ten cells a dipole that starts at \<open>x = 0\<close> and
  moves five cells a run is at 5 in the second and at 10 in the third and last run, inside
  the grid; the first run raises all the same.
\<close>

theorem first_run_tests_one_step_beyond_last_run:
  "raised (adjust_positions 1 3 stepping_grid) = Some (GeneralError SourceOutsideDomain) \<and>
   map (\<lambda>k. map xcoord (hertziandipoles (final_grid (adjust_positions k 3 stepping_grid)))) [2, 3]
     = [[5], [10]] \<and>
   nx stepping_grid = 10"
  by (simp add: eval_defs)

section \<open>Fatal conditions before the loop\<close>

lemma step_all_rejects:
  "\<exists>s\<in>set ss. outside_domain steps m G s \<Longrightarrow>
   fst (step_all msg steps 1 m G ss) = Some (GeneralError msg)"
proof (induction ss)
  case Nil
  then show ?case by simp
next
  case (Cons a ss)
  show ?case
  proof (cases "outside_domain steps m G a")
    case True
    then show ?thesis by simp
  next
    case False
    with Cons.prems have "\<exists>s\<in>set ss. outside_domain steps m G s" by auto
    from Cons.IH [OF this] False show ?thesis by (auto split: prod.split)
  qed
qed

text \<open>What the test of the first run does catch: a source that starts inside the grid
  and is outside it in the last run, \<open>modelend\<close>, is also outside it one step further, where
  the test looks.\<close>

lemma leaves_domain_low:
  fixes x a m :: int
  assumes "0 \<le> x" "1 \<le> m" "x + a * (m - 1) < 0"
  shows "x + a * m < 0"
proof -
  from assms have "a * (m - 1) < 0" by linarith
  with assms(2) have "a < 0" by (simp add: mult_less_0_iff)
  moreover have "a * m = a * (m - 1) + a" by (simp add: algebra_simps)
  ultimately show ?thesis using assms(3) by linarith
qed

lemma leaves_domain_high:
  fixes x a m n :: int
  assumes "x \<le> n" "1 \<le> m" "n < x + a * (m - 1)"
  shows "n < x + a * m"
proof -
  from assms have "0 < a * (m - 1)" by linarith
  with assms(2) have "0 < a" by (simp add: zero_less_mult_iff)
  moreover have "a * m = a * (m - 1) + a" by (simp add: algebra_simps)
  ultimately show ?thesis using assms(3) by linarith
qed

lemma outside_one_step_on:
  assumes "inside_grid G s" "1 \<le> m" "outside_domain steps (m - 1) G s"
  shows "outside_domain steps m G s"
  using assms unfolding inside_grid_def outside_domain_def
  by (meson leaves_domain_low leaves_domain_high)

lemma adjust_sources_rejects:
  assumes nz: "nonzero (srcsteps G)"
      and out: "\<exists>s\<in>set (hertziandipoles G @ magneticdipoles G). outside_domain (srcsteps G) m G s"
  shows "raised (adjust_sources 1 m G) = Some (GeneralError SourceOutsideDomain)"
proof (cases "\<exists>s\<in>set (hertziandipoles G). outside_domain (srcsteps G) m G s")
  case True
  from step_all_rejects [OF True, of SourceOutsideDomain]
  obtain hs where "step_all SourceOutsideDomain (srcsteps G) 1 m G (hertziandipoles G)
                     = (Some (GeneralError SourceOutsideDomain), hs)"
    by (metis prod.collapse)
  with nz show ?thesis
    by (simp add: adjust_sources_def raised_def)
next
  case False
  then have h: "step_all SourceOutsideDomain (srcsteps G) 1 m G (hertziandipoles G)
                 = (None, map (reposition 1 (srcsteps G)) (hertziandipoles G))"
    by (intro step_all_passes) simp
  from False out have "\<exists>s\<in>set (magneticdipoles G). outside_domain (srcsteps G) m G s"
    by auto
  from step_all_rejects [OF this, of SourceOutsideDomain]
  obtain ms where "step_all SourceOutsideDomain (srcsteps G) 1 m G (magneticdipoles G)
                     = (Some (GeneralError SourceOutsideDomain), ms)"
    by (metis prod.collapse)
  with nz h show ?thesis
    by (simp add: adjust_sources_def raised_def)
qed

lemma raised_adjust_positions:
  "raised (adjust_sources k m G) = Some e \<Longrightarrow> raised (adjust_positions k m G) = Some e"
  by (cases "adjust_sources k m G") (simp_all add: adjust_positions_def raised_def)

lemma source_leaving_domain_is_rejected:
  assumes "nonzero (srcsteps G)" "1 \<le> m"
      and "s \<in> set (hertziandipoles G @ magneticdipoles G)"
      and "inside_grid G s" "outside_domain (srcsteps G) (m - 1) G s"
  shows "raised (adjust_positions 1 m G) = Some (GeneralError SourceOutsideDomain)"
proof -
  from assms(4) assms(2) assms(5) have "outside_domain (srcsteps G) m G s"
    by (rule outside_one_step_on)
  with assms(3) have "\<exists>s\<in>set (hertziandipoles G @ magneticdipoles G). outside_domain (srcsteps G) m G s"
    by (rule bexI [rotated])
  from adjust_sources_rejects [OF assms(1) this] show ?thesis
    by (rule raised_adjust_positions)
qed

lemma adjust_receivers_rejects:
  assumes nz: "nonzero (rxsteps G)"
      and out: "\<exists>r\<in>set (rxs G). outside_domain (rxsteps G) m G r"
  shows "raised (adjust_receivers 1 m G) = Some (GeneralError ReceiverOutsideDomain)"
proof -
  from step_all_rejects [OF out, of ReceiverOutsideDomain]
  obtain rs where "step_all ReceiverOutsideDomain (rxsteps G) 1 m G (rxs G)
                     = (Some (GeneralError ReceiverOutsideDomain), rs)"
    by (metis prod.collapse)
  with nz show ?thesis
    by (simp add: adjust_receivers_def raised_def)
qed

lemma adjust_sources_receivers:
  "rxs (final_grid (adjust_sources k m G)) = rxs G \<and>
   rxsteps (final_grid (adjust_sources k m G)) = rxsteps G \<and>
   nx (final_grid (adjust_sources k m G)) = nx G \<and>
   ny (final_grid (adjust_sources k m G)) = ny G \<and>
   nz (final_grid (adjust_sources k m G)) = nz G"
  by (simp add: adjust_sources_def final_grid_def split: prod.split option.split)

lemma receiver_leaving_domain_is_rejected:
  assumes nz: "nonzero (rxsteps G)" and m: "1 \<le> m"
      and r: "r \<in> set (rxs G)"
      and inside: "inside_grid G r" and out: "outside_domain (rxsteps G) (m - 1) G r"
  shows "raised (adjust_positions 1 m G) \<noteq> None"
proof (cases "adjust_sources 1 m G")
  case (Inl p)
  then show ?thesis
    by (simp add: adjust_positions_def raised_def split: prod.split)
next
  case (Inr G1)
  with adjust_sources_receivers [of 1 m G]
  have same: "rxs G1 = rxs G" "rxsteps G1 = rxsteps G" "nx G1 = nx G" "ny G1 = ny G" "nz G1 = nz G"
    by (simp_all add: final_grid_def)
  from inside m out have "outside_domain (rxsteps G) m G r"
    by (rule outside_one_step_on)
  then have "outside_domain (rxsteps G1) m G1 r"
    by (simp add: outside_domain_def same)
  with r have "\<exists>r\<in>set (rxs G1). outside_domain (rxsteps G1) m G1 r"
    unfolding same(1) by (rule bexI [rotated])
  moreover from nz have "nonzero (rxsteps G1)" by (simp add: same)
  ultimately have "raised (adjust_receivers 1 m G1) = Some (GeneralError ReceiverOutsideDomain)"
    by (intro adjust_receivers_rejects)
  with Inr show ?thesis by (simp add: adjust_positions_def)
qed

text \<open>Neither the build nor the adjustment touches the fields: a run that fails in the
  adjustment has updated no field.\<close>

lemma adjust_sources_trace: "trace (final_grid (adjust_sources k m G)) = trace G"
  by (simp add: adjust_sources_def final_grid_def split: prod.split option.split)

lemma adjust_receivers_trace: "trace (final_grid (adjust_receivers k m G)) = trace G"
  by (simp add: adjust_receivers_def final_grid_def split: prod.split option.split)

lemma adjust_positions_trace: "trace (final_grid (adjust_positions k m G)) = trace G"
proof (cases "adjust_sources k m G")
  case (Inl e)
  with adjust_sources_trace [of k m G] show ?thesis
    by (simp add: adjust_positions_def)
next
  case (Inr G1)
  with adjust_sources_trace [of k m G] have "trace G1 = trace G"
    by (simp add: final_grid_def)
  with adjust_receivers_trace [of k m G1] Inr show ?thesis
    by (simp add: adjust_positions_def)
qed

lemma admit_dispersive_trace:
  "\<not> list_ex is_field_update (trace G) \<Longrightarrow>
   \<not> list_ex is_field_update (trace (final_grid (admit_dispersive maxpoles mu G)))"
  by (simp add: admit_dispersive_def final_grid_def initialise_dispersive_arrays_def calls_def Let_def
      split: option.split)

lemma finish_build_trace:
  "\<not> list_ex is_field_update (trace G) \<Longrightarrow>
   \<not> list_ex is_field_update (trace (final_grid (finish_build ext G)))"
  by (simp add: finish_build_def final_grid_def calls_def Let_def split: prod.split)

lemma build_model_trace:
  "\<not> list_ex is_field_update (trace (final_grid (build_model maxpoles ext)))"
proof -
  have n: "\<not> list_ex is_field_update (trace (new_grid ext))"
    by (simp add: new_grid_def)
  show ?thesis
  proof (cases "admit_dispersive maxpoles (memory_usage ext) (new_grid ext)")
    case (Inl e)
    with admit_dispersive_trace [OF n, of maxpoles "memory_usage ext"] show ?thesis
      by (simp add: build_model_def)
  next
    case (Inr G1)
    with admit_dispersive_trace [OF n, of maxpoles "memory_usage ext"]
    have "\<not> list_ex is_field_update (trace G1)"
      by (simp add: final_grid_def)
    from finish_build_trace [OF this, of ext] Inr show ?thesis
      by (simp add: build_model_def)
  qed
qed

lemma stepping_error_before_any_field_update:
  assumes "build_model maxpoles ext = Inr G1" and "adjust_positions k m G1 = Inl (e, G2)"
  shows "run_model args k m maxpoles ext None = Inl (e, G2) \<and> \<not> list_ex is_field_update (trace G2)"
proof -
  from adjust_positions_trace [of k m G1] assms(2) have "trace G2 = trace G1"
    by (simp add: final_grid_def)
  moreover from build_model_trace [of maxpoles ext] assms(1)
  have "\<not> list_ex is_field_update (trace G1)"
    by (simp add: final_grid_def)
  ultimately show ?thesis
    using assms by (simp add: run_model_def build_or_reuse_def)
qed

text \<open>
  C5: when some material is dispersive (\<open>maxpoles\<close> is not zero) and the estimate of the
  memory exceeds the RAM of the host, or the memory of the GPU when one is selected, the run
  of a new model raises a \<open>GeneralError\<close> and leaves the grid as the input file built it:
  \<open>Tx\<close>, \<open>Ty\<close>, \<open>Tz\<close> and the dispersive coefficients are untouched and
  \<open>initialise_dispersive_arrays\<close> has not been called.
\<close>

theorem admission_before_dispersive_allocation:
  assumes poles: "maxpoles \<noteq> 0"
      and over: "memory_usage ext (new_grid ext) > hostram (new_grid ext) \<or>
                 (\<exists>d. gpu (new_grid ext) = Some d \<and> memory_usage ext (new_grid ext) > totalmem d)"
  shows "\<exists>msg. run_model args k m maxpoles ext None = Inl (GeneralError msg, new_grid ext) \<and>
           (msg = MemoryExceedsHost \<or> msg = MemoryExceedsGPU) \<and>
           Tx (new_grid ext) = Tx (read_and_build ext) \<and>
           Ty (new_grid ext) = Ty (read_and_build ext) \<and>
           Tz (new_grid ext) = Tz (read_and_build ext) \<and>
           updatecoeffsdispersive (new_grid ext) = updatecoeffsdispersive (read_and_build ext) \<and>
           trace (new_grid ext) = [NewGrid]"
proof -
  have "\<exists>msg. admit_dispersive maxpoles (memory_usage ext) (new_grid ext)
                 = Inl (GeneralError msg, new_grid ext) \<and>
               (msg = MemoryExceedsHost \<or> msg = MemoryExceedsGPU)"
    using poles over by (auto simp: admit_dispersive_def Let_def)
  then obtain msg where
    a: "admit_dispersive maxpoles (memory_usage ext) (new_grid ext) = Inl (GeneralError msg, new_grid ext)"
    and b: "msg = MemoryExceedsHost \<or> msg = MemoryExceedsGPU"
    by blast
  have "run_model args k m maxpoles ext None = Inl (GeneralError msg, new_grid ext)"
    by (simp add: run_model_def build_or_reuse_def build_model_def a)
  with b show ?thesis by (auto simp: new_grid_def)
qed

text \<open>The small model on a host of 1000 bytes, with an estimate of 2000.\<close>

theorem admission_witness:
  "(1::int) \<noteq> 0 \<and>
   memory_usage example_ext (new_grid example_ext) > hostram (new_grid example_ext) \<and>
   (\<exists>msg. run_model \<lparr>geometry_only = False, geometry_fixed = False\<rparr> 1 1 1 example_ext None
             = Inl (GeneralError msg, new_grid example_ext)) \<and>
   Tx (new_grid example_ext) = None"
proof -
  have h: "memory_usage example_ext (new_grid example_ext) > hostram (new_grid example_ext)"
    by (simp add: example_ext_def new_grid_def example_grid_def)
  have t: "Tx (read_and_build example_ext) = None"
    by (simp add: example_ext_def example_grid_def)
  have p: "(1::int) \<noteq> 0" by simp
  from admission_before_dispersive_allocation [OF p disjI1 [OF h],
      of "\<lparr>geometry_only = False, geometry_fixed = False\<rparr>" 1 1] h t
  show ?thesis by auto
qed



text \<open>
  C9: when the grid of the previous run is still there, the run only clears the six field
  arrays and the auxiliary field arrays of each PML; the grid is otherwise the one it
  was: the \<open>ID\<close> array, the materials, the tables of update coefficients and the
  coefficients of the PMLs are unchanged, and the trace shows the two kinds of reset and
  no call that would compute them again.
\<close>

theorem reuse_resets_fields_only:
  "build_or_reuse maxpoles ext (Some G) = Inr (reuse_geometry G) \<and>
   reuse_geometry G =
     G\<lparr>Ex_field := zeros (ncells G), Ey := zeros (ncells G), Ez := zeros (ncells G),
       Hx := zeros (ncells G), Hy := zeros (ncells G), Hz := zeros (ncells G),
       pmls := map (\<lambda>p. p\<lparr>pml_fields := zeros (length (pml_fields p))\<rparr>) (pmls G),
       trace := trace G @ InitialiseFieldArrays # map PmlInitialiseFieldArrays [0..<length (pmls G)]\<rparr> \<and>
   ID (reuse_geometry G) = ID G \<and>
   materials (reuse_geometry G) = materials G \<and>
   updatecoeffsE (reuse_geometry G) = updatecoeffsE G \<and>
   updatecoeffsH (reuse_geometry G) = updatecoeffsH G \<and>
   updatecoeffsdispersive (reuse_geometry G) = updatecoeffsdispersive G \<and>
   map pml_coeffs (pmls (reuse_geometry G)) = map pml_coeffs (pmls G)"
proof -
  have r: "reuse_geometry G =
     G\<lparr>Ex_field := zeros (ncells G), Ey := zeros (ncells G), Ez := zeros (ncells G),
       Hx := zeros (ncells G), Hy := zeros (ncells G), Hz := zeros (ncells G),
       pmls := map (\<lambda>p. p\<lparr>pml_fields := zeros (length (pml_fields p))\<rparr>) (pmls G),
       trace := trace G @ InitialiseFieldArrays # map PmlInitialiseFieldArrays [0..<length (pmls G)]\<rparr>"
    by (simp add: reuse_geometry_def initialise_field_arrays_def calls_def Let_def
        pml_initialise_field_arrays_def [abs_def])
  have c: "map pml_coeffs (pmls (reuse_geometry G)) = map pml_coeffs (pmls G)"
    by (simp add: r comp_def)
  show ?thesis
    using c by (simp add: build_or_reuse_def) (simp add: r)
qed


section \<open>The order of the calls in one iteration\<close>
























lemmas example_trace_defs = cpu_iteration_def gpu_iteration_def for_each_def snapshot_events_def
  example_grid_def all_components_def











lemma cpu_iteration_of_example:
  "cpu_iteration 0 example_grid 1 =
     [StoreOutputs 1 [CEx, CEy, CEz, CHx, CHy, CHz], UpdateMagnetic, PmlUpdateMagnetic 0,
      SourceUpdateMagnetic TransmissionLine 0 1, SourceUpdateMagnetic MagneticDipole 0 1,
      UpdateElectric, PmlUpdateElectric 0, SourceUpdateElectric VoltageSource 0 1,
      SourceUpdateElectric TransmissionLine 0 1, SourceUpdateElectric HertzianDipole 0 1]"
  by (simp add: example_trace_defs)

lemma gpu_iteration_of_example:
  "gpu_iteration 0 example_grid 1 =
     [LaunchStoreOutputs 1 1 [CEx, CEy, CEz, CHx, CHy, CHz], LaunchUpdateH, PmlGpuUpdateMagnetic 0,
      LaunchUpdateMagneticDipole 1 1, LaunchUpdateE, PmlGpuUpdateElectric 0,
      LaunchUpdateVoltageSource 1 1, LaunchUpdateHertzianDipole 1 1]"
  by (simp add: example_trace_defs)

section \<open>The source updates of the two backends\<close>















end
